theory Spec2Isabelle
  imports Main
begin

section \<open>JavaScript values and objects\<close>

text \<open>
  The hooks are dynamically typed at run time: a serializer of the multi-key hook is taken
  out of \<^verbatim>\<open>Object.entries(keys)\<close> and called on whatever it is handed. Typed
  values, raw query values and written query values therefore share one universe of
  JavaScript values. Numbers are the integer-valued ones; an object is the partial map of
  its own properties, so \<^verbatim>\<open>k in obj\<close> is \<open>obj k \<noteq> None\<close> and a property
  may be present with the value \<^verbatim>\<open>undefined\<close>. Property names inherited from
  \<^verbatim>\<open>Object.prototype\<close> are not represented.
\<close>

datatype jsval =
    JUndefined
  | JNull
  | JBool bool
  | JNum int
  | JStr string
  | JArr "jsval list"
  | JObj "string \<Rightarrow> jsval option"

type_synonym jsobj = "string \<Rightarrow> jsval option"

text \<open>Property read \<^verbatim>\<open>obj[k]\<close>: an absent property reads as \<^verbatim>\<open>undefined\<close>.\<close>

definition getprop :: "jsobj \<Rightarrow> string \<Rightarrow> jsval" where
  "getprop obj k = (case obj k of None \<Rightarrow> JUndefined | Some v \<Rightarrow> v)"

section \<open>Exceptions\<close>

text \<open>
  \<^verbatim>\<open>parse\<close>, \<^verbatim>\<open>serialize\<close> and the updater functions are supplied by the caller and
  may throw; the hooks have no \<^verbatim>\<open>try\<close>, so what a callback throws leaves the
  enclosing function at once. A call either throws a value (\<open>Inl\<close>) or returns one
  (\<open>Inr\<close>); \<open>and_then\<close> is sequencing: the rest runs only when the first part returned.
\<close>

datatype error = Thrown jsval

type_synonym callback = "jsval \<Rightarrow> error + jsval"

fun and_then :: "error + 'a \<Rightarrow> ('a \<Rightarrow> error + 'b) \<Rightarrow> error + 'b" where
  "and_then (Inl e) rest = Inl e"
| "and_then (Inr x) rest = rest x"

text \<open>A callback that computes its result and never throws.\<close>

definition returns :: "(jsval \<Rightarrow> jsval) \<Rightarrow> callback" where
  "returns f x = Inr (f x)"

section \<open>Declarations shared by both hooks\<close>

text \<open>
  \<^verbatim>\<open>HistoryOptions\<close> is the string union \<^verbatim>\<open>"replace" | "push"\<close>. Both members are
  truthy, so \<^verbatim>\<open>options?.history || history\<close> falls back to \<^verbatim>\<open>history\<close> exactly
  when \<^verbatim>\<open>options\<close> or \<^verbatim>\<open>options.history\<close> is undefined.
\<close>

datatype HistoryOptions = HReplace | HPush

text \<open>
  The argument \<^verbatim>\<open>{ query: queryUpdater }\<close> of the batch router is a patch object or a
  patch function over the raw query dictionary. A patch function runs the caller's
  callbacks when the batch router applies it, so it may throw as well.
\<close>

datatype QueryUpdater = QueryObj jsobj | QueryFn "jsobj \<Rightarrow> error + jsobj"

text \<open>
  \<^verbatim>\<open>batchRouter.push(url, as, transitionOptions)\<close> and \<^verbatim>\<open>batchRouter.replace(...)\<close>
  are the only effects of a setter. The batch router is the log of the calls it has
  received; the second argument is the constant \<^verbatim>\<open>undefined\<close> at every call site and
  is left out.
\<close>

datatype RouterCall = RouterPush QueryUpdater jsval | RouterReplace QueryUpdater jsval

type_synonym BatchRouter = "RouterCall list"

definition batchRouter_push :: "QueryUpdater \<Rightarrow> jsval \<Rightarrow> BatchRouter \<Rightarrow> BatchRouter" where
  "batchRouter_push q transitionOptions router = router @ [RouterPush q transitionOptions]"

definition batchRouter_replace :: "QueryUpdater \<Rightarrow> jsval \<Rightarrow> BatchRouter \<Rightarrow> BatchRouter" where
  "batchRouter_replace q transitionOptions router = router @ [RouterReplace q transitionOptions]"

text \<open>
  What one call of a setter leaves behind: the exception it threw, if any, and the batch
  router after it.
\<close>

type_synonym SetterResult = "error option \<times> BatchRouter"

section \<open>useQueryState\<close>

text \<open>
  \<^verbatim>\<open>UseQueryStateOptions<T>\<close>, taken as \<^verbatim>\<open>Partial\<close>: every field may be missing.
\<close>

record UseQueryStateOptions =
  uqs_history :: "HistoryOptions option"
  uqs_dynamic :: "bool option"
  uqs_parse :: "callback option"
  uqs_serialize :: "callback option"

text \<open>The value of the destructuring pattern's default \<^verbatim>\<open>= {}\<close>.\<close>

definition no_options :: UseQueryStateOptions where
  "no_options = \<lparr>uqs_history = None, uqs_dynamic = None, uqs_parse = None, uqs_serialize = None\<rparr>"

record SetQueryStateOptions =
  sqs_history :: "HistoryOptions option"

text \<open>
  \<^verbatim>\<open>T | ((prev: T) => T)\<close>, told apart by \<^verbatim>\<open>typeof input === "function"\<close>;
  the selectors read the argument at the type the guard has narrowed it to.
\<close>

datatype StateUpdater = Direct (the_value: jsval) | Updater (the_updater: callback)

fun isUpdaterFunction :: "StateUpdater \<Rightarrow> bool" where
  "isUpdaterFunction (Updater f) = True"
| "isUpdaterFunction (Direct v) = False"

text \<open>
  The default of the \<^verbatim>\<open>parse\<close> field: \<^verbatim>\<open>(x) => (x === undefined ? null : x)\<close>.
  It never throws.
\<close>

definition default_parse :: "jsval \<Rightarrow> jsval" where
  "default_parse x = (if x = JUndefined then JNull else x)"

text \<open>
  The arrow function of the updater branch,
  \<^verbatim>\<open>(prevObj) => { const newVal = serialize(stateUpdater(parse(prevObj[key]))); ... }\<close>,
  closed over \<^verbatim>\<open>key\<close>, \<^verbatim>\<open>parse\<close>, \<^verbatim>\<open>serialize\<close> and \<^verbatim>\<open>stateUpdater\<close>. The
  calls run innermost first: \<^verbatim>\<open>parse\<close>, then the updater, then \<^verbatim>\<open>serialize\<close>.
\<close>

definition useQueryState_patch ::
  "string \<Rightarrow> callback \<Rightarrow> callback \<Rightarrow> callback \<Rightarrow> jsobj \<Rightarrow> error + jsobj" where
  "useQueryState_patch key parse serialize stateUpdater prevObj =
     and_then (parse (getprop prevObj key)) (\<lambda>prev.
     and_then (stateUpdater prev) (\<lambda>next.
     and_then (serialize next) (\<lambda>newVal.
     Inr (if newVal \<noteq> JUndefined then prevObj(key \<mapsto> newVal) else prevObj))))"

text \<open>
  The local constant \<^verbatim>\<open>queryUpdater\<close> of \<^verbatim>\<open>update\<close>. The direct branch calls
  \<^verbatim>\<open>serialize\<close> on the spot; the updater branch only builds the arrow function.
\<close>

definition useQueryState_queryUpdater ::
  "string \<Rightarrow> callback \<Rightarrow> callback \<Rightarrow> StateUpdater \<Rightarrow> error + QueryUpdater" where
  "useQueryState_queryUpdater key parse serialize stateUpdater =
     (if isUpdaterFunction stateUpdater
      then Inr (QueryFn (useQueryState_patch key parse serialize (the_updater stateUpdater)))
      else and_then (serialize (the_value stateUpdater)) (\<lambda>serialized.
           Inr (QueryObj [key \<mapsto> serialized])))"

text \<open>\<^verbatim>\<open>options?.history || history\<close> for the single-key setter.\<close>

definition historyMode :: "SetQueryStateOptions option \<Rightarrow> HistoryOptions \<Rightarrow> HistoryOptions" where
  "historyMode options history =
     (case options of
        None \<Rightarrow> history
      | Some opts \<Rightarrow> (case sqs_history opts of None \<Rightarrow> history | Some h \<Rightarrow> h))"

text \<open>
  The setter \<^verbatim>\<open>update\<close> returned by the hook, closed over \<^verbatim>\<open>key\<close>,
  \<^verbatim>\<open>history\<close>, \<^verbatim>\<open>parse\<close> and \<^verbatim>\<open>serialize\<close>. \<^verbatim>\<open>queryUpdater\<close> is computed
  first: when that throws, the setter is left before the batch router is called.
\<close>

definition useQueryState_update ::
  "string \<Rightarrow> HistoryOptions \<Rightarrow> callback \<Rightarrow> callback \<Rightarrow>
   StateUpdater \<Rightarrow> SetQueryStateOptions option \<Rightarrow> jsval \<Rightarrow> BatchRouter \<Rightarrow> SetterResult" where
  "useQueryState_update key history parse serialize stateUpdater options transitionOptions router =
     (case useQueryState_queryUpdater key parse serialize stateUpdater of
        Inl e \<Rightarrow> (Some e, router)
      | Inr queryUpdater \<Rightarrow>
          (let mode = historyMode options history
           in if mode = HPush
              then (None, batchRouter_push queryUpdater transitionOptions router)
              else (None, batchRouter_replace queryUpdater transitionOptions router)))"

text \<open>
  One render of the hook. \<^verbatim>\<open>defaultSerializer\<close> is imported from \<^verbatim>\<open>./utils\<close> and is a
  parameter here; \<^verbatim>\<open>query\<close> is \<^verbatim>\<open>useRouter().query\<close>. \<^verbatim>\<open>React.useMemo\<close> and
  \<^verbatim>\<open>React.useCallback\<close> run, respectively return, their callback on a first render;
  \<^verbatim>\<open>dynamic\<close> only enters their dependency arrays. When \<^verbatim>\<open>parse\<close> throws, the
  render throws and no setter is returned.
\<close>

definition useQueryState ::
  "callback \<Rightarrow> jsobj \<Rightarrow> string \<Rightarrow> UseQueryStateOptions option \<Rightarrow>
   error + (jsval \<times> (StateUpdater \<Rightarrow> SetQueryStateOptions option \<Rightarrow> jsval \<Rightarrow>
                      BatchRouter \<Rightarrow> SetterResult))" where
  "useQueryState defaultSerializer query key options =
     (let opts = (case options of None \<Rightarrow> no_options | Some given \<Rightarrow> given);
          history = (case uqs_history opts of None \<Rightarrow> HReplace | Some h \<Rightarrow> h);
          dynamic = (case uqs_dynamic opts of None \<Rightarrow> False | Some d \<Rightarrow> d);
          parse = (case uqs_parse opts of None \<Rightarrow> returns default_parse | Some p \<Rightarrow> p);
          serialize = (case uqs_serialize opts of None \<Rightarrow> defaultSerializer | Some s \<Rightarrow> s);
          routerValue = getprop query key
      in and_then (parse routerValue) (\<lambda>val.
         Inr (val, useQueryState_update key history parse serialize)))"

section \<open>useQueryStates\<close>

text \<open>
  A \<^verbatim>\<open>KeyMap\<close> entry: \<^verbatim>\<open>parse\<close> is called unguarded, \<^verbatim>\<open>serialize\<close> is read as
  \<^verbatim>\<open>v.serialize || defaultSerializer\<close> and may be missing. The key map is the list
  \<^verbatim>\<open>Object.entries(keys)\<close>.
\<close>

record Serializers =
  parse :: callback
  serialize :: "callback option"

type_synonym KeyMap = "(string \<times> Serializers) list"

record UseQueryStatesOptions =
  uqss_history :: "HistoryOptions option"

text \<open>The per-call options of \<^verbatim>\<open>SetValues\<close>: \<^verbatim>\<open>{ history: HistoryOptions }\<close>.\<close>

record SetValuesOptions =
  sv_history :: HistoryOptions

text \<open>\<^verbatim>\<open>Partial<Values<T>> | UpdaterFn<T>\<close>.\<close>

datatype StatesUpdater =
  DirectValues (the_values: jsobj) | UpdaterFn (the_updaterFn: "jsobj \<Rightarrow> error + jsobj")

fun isUpdaterFunction_states :: "StatesUpdater \<Rightarrow> bool" where
  "isUpdaterFunction_states (UpdaterFn f) = True"
| "isUpdaterFunction_states (DirectValues vals) = False"

text \<open>
  \<^verbatim>\<open>for (const [k, v] of Object.entries(keys)) values[k] = v.parse(query[k])\<close>,
  with the object under construction as accumulator; a \<^verbatim>\<open>parse\<close> that throws ends
  the loop.
\<close>

fun parseObject_loop :: "jsobj \<Rightarrow> KeyMap \<Rightarrow> jsobj \<Rightarrow> error + jsobj" where
  "parseObject_loop query [] values = Inr values"
| "parseObject_loop query ((k, v) # rest) values =
     (case parse v (getprop query k) of
        Inl e \<Rightarrow> Inl e
      | Inr parsed \<Rightarrow> parseObject_loop query rest (values(k \<mapsto> parsed)))"

definition parseObject :: "jsobj \<Rightarrow> KeyMap \<Rightarrow> error + jsobj" where
  "parseObject query keys = parseObject_loop query keys Map.empty"

text \<open>
  The loop of \<^verbatim>\<open>serializeAndRemoveUndefined\<close>. The serializer is called on
  \<^verbatim>\<open>vals\<close>, the whole object, as the source has it:
  \<^verbatim>\<open>const serializedVal = (v.serialize || defaultSerializer)(vals);\<close>
  A serializer that throws ends the loop.
\<close>

fun serializeAndRemoveUndefined_loop ::
  "callback \<Rightarrow> jsobj \<Rightarrow> KeyMap \<Rightarrow> jsobj \<Rightarrow> error + jsobj" where
  "serializeAndRemoveUndefined_loop defaultSerializer vals [] serialized = Inr serialized"
| "serializeAndRemoveUndefined_loop defaultSerializer vals ((k, v) # rest) serialized =
     (if vals k \<noteq> None
      then (case (case serialize v of None \<Rightarrow> defaultSerializer | Some s \<Rightarrow> s) (JObj vals) of
              Inl e \<Rightarrow> Inl e
            | Inr serializedVal \<Rightarrow>
                if serializedVal \<noteq> JUndefined
                then serializeAndRemoveUndefined_loop defaultSerializer vals rest
                       (serialized(k \<mapsto> serializedVal))
                else serializeAndRemoveUndefined_loop defaultSerializer vals rest serialized)
      else serializeAndRemoveUndefined_loop defaultSerializer vals rest serialized)"

definition serializeAndRemoveUndefined :: "callback \<Rightarrow> jsobj \<Rightarrow> KeyMap \<Rightarrow> error + jsobj" where
  "serializeAndRemoveUndefined defaultSerializer vals keys =
     serializeAndRemoveUndefined_loop defaultSerializer vals keys Map.empty"

text \<open>
  The arrow function of the updater branch of the multi-key setter:
  \<^verbatim>\<open>prev = parseObject(prevObj, keys)\<close>, \<^verbatim>\<open>updated = stateUpdater(prev)\<close>, then
  \<^verbatim>\<open>{ ...prevObj, ...serializeAndRemoveUndefined(updated, keys) }\<close>.
\<close>

definition useQueryStates_patch ::
  "callback \<Rightarrow> KeyMap \<Rightarrow> (jsobj \<Rightarrow> error + jsobj) \<Rightarrow> jsobj \<Rightarrow> error + jsobj" where
  "useQueryStates_patch defaultSerializer keys stateUpdater prevObj =
     and_then (parseObject prevObj keys) (\<lambda>prev.
     and_then (stateUpdater prev) (\<lambda>updated.
     and_then (serializeAndRemoveUndefined defaultSerializer updated keys) (\<lambda>serialized.
     Inr (prevObj ++ serialized))))"

text \<open>
  The local constant \<^verbatim>\<open>queryUpdater\<close> of the multi-key \<^verbatim>\<open>update\<close>. The direct
  branch serializes on the spot; the updater branch only builds the arrow function.
\<close>

definition useQueryStates_queryUpdater ::
  "callback \<Rightarrow> KeyMap \<Rightarrow> StatesUpdater \<Rightarrow> error + QueryUpdater" where
  "useQueryStates_queryUpdater defaultSerializer keys stateUpdater =
     (if isUpdaterFunction_states stateUpdater
      then Inr (QueryFn (useQueryStates_patch defaultSerializer keys (the_updaterFn stateUpdater)))
      else and_then (serializeAndRemoveUndefined defaultSerializer (the_values stateUpdater) keys)
             (\<lambda>serialized. Inr (QueryObj serialized)))"

text \<open>\<^verbatim>\<open>options?.history || history\<close> for the multi-key setter.\<close>

definition historyMode_states :: "SetValuesOptions option \<Rightarrow> HistoryOptions \<Rightarrow> HistoryOptions" where
  "historyMode_states options history =
     (case options of None \<Rightarrow> history | Some opts \<Rightarrow> sv_history opts)"

text \<open>
  The setter \<^verbatim>\<open>update\<close> of the multi-key hook, closed over \<^verbatim>\<open>keys\<close> and
  \<^verbatim>\<open>history\<close>. As in the single-key setter, \<^verbatim>\<open>queryUpdater\<close> is computed before the
  batch router is called.
\<close>

definition useQueryStates_update ::
  "callback \<Rightarrow> KeyMap \<Rightarrow> HistoryOptions \<Rightarrow>
   StatesUpdater \<Rightarrow> SetValuesOptions option \<Rightarrow> jsval \<Rightarrow> BatchRouter \<Rightarrow> SetterResult" where
  "useQueryStates_update defaultSerializer keys history stateUpdater options transitionOptions router =
     (case useQueryStates_queryUpdater defaultSerializer keys stateUpdater of
        Inl e \<Rightarrow> (Some e, router)
      | Inr queryUpdater \<Rightarrow>
          (let mode = historyMode_states options history
           in if mode = HPush
              then (None, batchRouter_push queryUpdater transitionOptions router)
              else (None, batchRouter_replace queryUpdater transitionOptions router)))"

text \<open>
  The multi-key hook: nothing is memoized, the values are parsed from \<^verbatim>\<open>router.query\<close>
  at every call. \<^verbatim>\<open>defaultSerializer\<close> and \<^verbatim>\<open>query\<close> are parameters as above. When a
  \<^verbatim>\<open>parse\<close> throws, the render throws and no setter is returned.
\<close>

definition useQueryStates ::
  "callback \<Rightarrow> jsobj \<Rightarrow> KeyMap \<Rightarrow> UseQueryStatesOptions option \<Rightarrow>
   error + (jsobj \<times> (StatesUpdater \<Rightarrow> SetValuesOptions option \<Rightarrow> jsval \<Rightarrow>
                      BatchRouter \<Rightarrow> SetterResult))" where
  "useQueryStates defaultSerializer query keys options =
     (let history = (case options of
                       None \<Rightarrow> HReplace
                     | Some opts \<Rightarrow> (case uqss_history opts of None \<Rightarrow> HReplace | Some h \<Rightarrow> h))
      in and_then (parseObject query keys) (\<lambda>values.
         Inr (values, useQueryStates_update defaultSerializer keys history)))"

section \<open>History resolution as the specification words it\<close>

text \<open>
  Written from the specification, to be compared with the hooks: the per-call override
  wins over the default configured on the hook, which wins over the global default
  \<^verbatim>\<open>replace\<close>.
\<close>

definition spec_history :: "HistoryOptions option \<Rightarrow> HistoryOptions option \<Rightarrow> HistoryOptions" where
  "spec_history perCall hookDefault =
     (case perCall of
        Some h \<Rightarrow> h
      | None \<Rightarrow> (case hookDefault of Some h \<Rightarrow> h | None \<Rightarrow> HReplace))"

section \<open>Serialization of an update as the specification words it\<close>

text \<open>
  Written from the specification, to be compared with \<open>serializeAndRemoveUndefined\<close>:
  each key of the key map that is present in the update is serialized by its own
  serializer, or by the default serializer when the entry has none, applied to that key's
  updated value; a key whose serialized value is undefined is dropped.
\<close>

fun spec_serialize_loop ::
  "callback \<Rightarrow> jsobj \<Rightarrow> KeyMap \<Rightarrow> jsobj \<Rightarrow> error + jsobj" where
  "spec_serialize_loop defaultSerializer vals [] serialized = Inr serialized"
| "spec_serialize_loop defaultSerializer vals ((k, v) # rest) serialized =
     (if vals k \<noteq> None
      then (case (case serialize v of None \<Rightarrow> defaultSerializer | Some s \<Rightarrow> s) (getprop vals k) of
              Inl e \<Rightarrow> Inl e
            | Inr serializedVal \<Rightarrow>
                if serializedVal \<noteq> JUndefined
                then spec_serialize_loop defaultSerializer vals rest (serialized(k \<mapsto> serializedVal))
                else spec_serialize_loop defaultSerializer vals rest serialized)
      else spec_serialize_loop defaultSerializer vals rest serialized)"

definition spec_serialize :: "callback \<Rightarrow> jsobj \<Rightarrow> KeyMap \<Rightarrow> error + jsobj" where
  "spec_serialize defaultSerializer vals keys =
     spec_serialize_loop defaultSerializer vals keys Map.empty"

section \<open>Caller-supplied functions used as concrete inputs\<close>

text \<open>
  A serializer pair for non-negative integers in decimal notation, and the updater
  \<^verbatim>\<open>(prev) => prev + 1\<close>, as a caller would supply them.
\<close>

fun decimal :: "nat \<Rightarrow> string" where
  "decimal n =
     (if n < 10 then [char_of (48 + n)] else decimal (n div 10) @ [char_of (48 + n mod 10)])"

definition from_decimal :: "string \<Rightarrow> nat" where
  "from_decimal s = foldl (\<lambda>acc c. 10 * acc + (of_char c - 48)) 0 s"

fun integer_parse :: "jsval \<Rightarrow> jsval" where
  "integer_parse (JStr s) = JNum (int (from_decimal s))"
| "integer_parse v = JNull"

fun integer_serialize :: "jsval \<Rightarrow> jsval" where
  "integer_serialize (JNum n) = (if 0 \<le> n then JStr (decimal (nat n)) else JUndefined)"
| "integer_serialize v = JUndefined"

fun increment :: "jsval \<Rightarrow> jsval" where
  "increment (JNum n) = JNum (n + 1)"
| "increment v = JUndefined"

text \<open>
  A serializer that writes strings as they are and nothing else:
  \<^verbatim>\<open>(v) => (typeof v === "string" ? v : undefined)\<close>.
\<close>

fun string_serialize :: "jsval \<Rightarrow> jsval" where
  "string_serialize (JStr s) = JStr s"
| "string_serialize v = JUndefined"

text \<open>A serializer for a flag that is written as \<^verbatim>\<open>"on"\<close> whatever its value.\<close>

definition flag_serialize :: "jsval \<Rightarrow> jsval" where
  "flag_serialize v = JStr ''on''"

text \<open>
  A serializer for a string parameter that refuses the empty string:
  \<^verbatim>\<open>(v) => { if (typeof v !== "string") throw "not a string";
              if (v === "") throw "empty"; return v; }\<close>.
\<close>

fun nonempty_serialize :: callback where
  "nonempty_serialize (JStr s) = (if s = [] then Inl (Thrown (JStr ''empty'')) else Inr (JStr s))"
| "nonempty_serialize v = Inl (Thrown (JStr ''not a string''))"

declare decimal.simps [simp del]

section \<open>Shared lemmas\<close>

lemma decimal_124: "decimal 124 = ''124''"
  by code_simp

lemma decimal_125: "decimal 125 = ''125''"
  by code_simp

lemma from_decimal_123: "from_decimal ''123'' = 123"
  by code_simp

lemma from_decimal_124: "from_decimal ''124'' = 124"
  by code_simp

lemma and_then_case: "and_then r rest = (case r of Inl e \<Rightarrow> Inl e | Inr x \<Rightarrow> rest x)"
  by (cases r) simp_all

text \<open>
  A setter either is left by the exception of \<open>queryUpdater\<close>, with the batch router as it
  was, or appends one call to it; the mode picks the method.
\<close>

lemma useQueryState_update_call:
  "useQueryState_update key history p s stateUpdater options transitionOptions router =
     (case useQueryState_queryUpdater key p s stateUpdater of
        Inl e \<Rightarrow> (Some e, router)
      | Inr q \<Rightarrow>
          (None, router @ [(if historyMode options history = HPush then RouterPush else RouterReplace)
                             q transitionOptions]))"
  by (simp add: useQueryState_update_def batchRouter_push_def batchRouter_replace_def Let_def
      split: sum.splits)

lemma useQueryStates_update_call:
  "useQueryStates_update dflt keys history stateUpdater options transitionOptions router =
     (case useQueryStates_queryUpdater dflt keys stateUpdater of
        Inl e \<Rightarrow> (Some e, router)
      | Inr q \<Rightarrow>
          (None, router @ [(if historyMode_states options history = HPush then RouterPush else RouterReplace)
                             q transitionOptions]))"
  by (simp add: useQueryStates_update_def batchRouter_push_def batchRouter_replace_def Let_def
      split: sum.splits)

text \<open>A functional update builds its patch function without calling any callback.\<close>

lemma useQueryState_queryUpdater_Updater:
  "useQueryState_queryUpdater key p s (Updater f) = Inr (QueryFn (useQueryState_patch key p s f))"
  by (simp add: useQueryState_queryUpdater_def)

lemma useQueryStates_queryUpdater_UpdaterFn:
  "useQueryStates_queryUpdater dflt keys (UpdaterFn f) = Inr (QueryFn (useQueryStates_patch dflt keys f))"
  by (simp add: useQueryStates_queryUpdater_def)

text \<open>The mode computed by the setters is the one the specification describes.\<close>

lemma historyMode_spec:
  "historyMode options (spec_history None hookDefault) =
     spec_history (Option.bind options sqs_history) hookDefault"
  by (simp add: historyMode_def spec_history_def split: option.splits)

lemma historyMode_states_spec:
  "historyMode_states options (spec_history None hookDefault) =
     spec_history (map_option sv_history options) hookDefault"
  by (simp add: historyMode_states_def spec_history_def split: option.splits)

lemma method_of_mode:
  "(if h = HPush then RouterPush else RouterReplace) =
     (case h of HPush \<Rightarrow> RouterPush | HReplace \<Rightarrow> RouterReplace)"
  by (cases h) simp_all

text \<open>The setter a hook returns, with the defaults of its options resolved.\<close>

lemma useQueryState_setter:
  assumes "useQueryState dflt query key hookOptions = Inr (val, setValue)"
  shows "setValue =
     useQueryState_update key (spec_history None (Option.bind hookOptions uqs_history))
       (case Option.bind hookOptions uqs_parse of None \<Rightarrow> returns default_parse | Some p \<Rightarrow> p)
       (case Option.bind hookOptions uqs_serialize of None \<Rightarrow> dflt | Some s \<Rightarrow> s)"
  using assms
  by (auto simp: useQueryState_def Let_def no_options_def spec_history_def and_then_case
      split: option.splits sum.splits)

lemma useQueryStates_setter:
  assumes "useQueryStates dflt query keys hookOptions = Inr (vals, setValues)"
  shows "setValues =
     useQueryStates_update dflt keys (spec_history None (Option.bind hookOptions uqss_history))"
  using assms
  by (auto simp: useQueryStates_def Let_def spec_history_def and_then_case
      split: option.splits sum.splits)

text \<open>
  The serializing loop only ever writes keys it iterates over: a key of the result was in
  the accumulator already or is a key of the key map.
\<close>

lemma serializeAndRemoveUndefined_loop_keys:
  "serializeAndRemoveUndefined_loop dflt vals keys acc = Inr serialized \<Longrightarrow>
     serialized k = Some x \<Longrightarrow> acc k = Some x \<or> k \<in> fst ` set keys"
  by (induction dflt vals keys acc rule: serializeAndRemoveUndefined_loop.induct)
     (auto simp: Let_def split: if_splits sum.splits)

lemma serializeAndRemoveUndefined_keys:
  "serializeAndRemoveUndefined dflt vals keys = Inr serialized \<Longrightarrow>
     dom serialized \<subseteq> fst ` set keys"
  using serializeAndRemoveUndefined_loop_keys [of dflt vals keys Map.empty serialized]
  by (auto simp: serializeAndRemoveUndefined_def)

section \<open>The single-key setter: functional updates\<close>

text \<open>
  Claim C2. A functional update of the single-key setter hands the batch router a patch
  function. When the updater's result, computed from the parsed entry of the dictionary
  the patch function is applied to, serializes to \<^verbatim>\<open>undefined\<close>, the patch function
  returns that dictionary as it is: the key keeps its previous raw value.
\<close>

theorem functional_update_undefined_keeps_dictionary:
  assumes "p (getprop prevObj key) = Inr prev" and "f prev = Inr next" and "s next = Inr JUndefined"
  shows "useQueryState_queryUpdater key p s (Updater f) = Inr (QueryFn (useQueryState_patch key p s f)) \<and>
         useQueryState_update key history p s (Updater f) options topts router =
           (None, router @ [(if historyMode options history = HPush then RouterPush else RouterReplace)
                              (QueryFn (useQueryState_patch key p s f)) topts]) \<and>
         useQueryState_patch key p s f prevObj = Inr prevObj"
  using assms
  by (simp add: useQueryState_update_call useQueryState_queryUpdater_Updater useQueryState_patch_def)

theorem functional_update_undefined_keeps_dictionary_witness:
  "returns integer_parse (getprop [''val'' \<mapsto> JStr ''123''] ''val'') = Inr (JNum 123) \<and>
   returns (\<lambda>prev. JUndefined) (JNum 123) = Inr JUndefined \<and>
   returns integer_serialize JUndefined = Inr JUndefined \<and>
   useQueryState_update ''val'' HReplace (returns integer_parse) (returns integer_serialize)
       (Updater (returns (\<lambda>prev. JUndefined))) None JUndefined []
     = (None, [RouterReplace (QueryFn (useQueryState_patch ''val'' (returns integer_parse)
                 (returns integer_serialize) (returns (\<lambda>prev. JUndefined)))) JUndefined]) \<and>
   useQueryState_patch ''val'' (returns integer_parse) (returns integer_serialize)
       (returns (\<lambda>prev. JUndefined)) [''val'' \<mapsto> JStr ''123'']
     = Inr [''val'' \<mapsto> JStr ''123'']"
proof -
  have parsed: "returns integer_parse (getprop [''val'' \<mapsto> JStr ''123''] ''val'') = Inr (JNum 123)"
    by (simp add: returns_def getprop_def from_decimal_123)
  have updated: "returns (\<lambda>prev. JUndefined) (JNum 123) = Inr JUndefined"
    by (simp add: returns_def)
  have serialized: "returns integer_serialize JUndefined = Inr JUndefined"
    by (simp add: returns_def)
  note run = functional_update_undefined_keeps_dictionary
    [where p = "returns integer_parse" and prevObj = "[''val'' \<mapsto> JStr ''123'']" and key = "''val''"
       and prev = "JNum 123" and f = "returns (\<lambda>prev. JUndefined)" and ?next = JUndefined
       and s = "returns integer_serialize" and history = HReplace and options = None
       and topts = JUndefined and router = "[]", OF parsed updated serialized]
  from run have call:
    "useQueryState_update ''val'' HReplace (returns integer_parse) (returns integer_serialize)
        (Updater (returns (\<lambda>prev. JUndefined))) None JUndefined []
      = (None, [RouterReplace (QueryFn (useQueryState_patch ''val'' (returns integer_parse)
                  (returns integer_serialize) (returns (\<lambda>prev. JUndefined)))) JUndefined])"
    by (simp add: historyMode_def)
  from run have kept:
    "useQueryState_patch ''val'' (returns integer_parse) (returns integer_serialize)
        (returns (\<lambda>prev. JUndefined)) [''val'' \<mapsto> JStr ''123'']
      = Inr [''val'' \<mapsto> JStr ''123'']"
    by simp
  show ?thesis
    by (intro conjI parsed updated serialized call kept)
qed

text \<open>
  Claim C3. A functional update makes the setter hand the batch router the patch function
  of its updater, and nothing is parsed when the setter is called: two setter calls in a
  row leave two patch functions in the batch router. A patch function parses the entry of
  the dictionary it is applied to. So when the first patch function is applied to
  \<open>prevObj\<close> and its serialized result is \<open>v1\<close>, the second one, applied to the output
  of the first, parses the raw value the first has left for the key: \<open>v1\<close>, or the entry
  of \<open>prevObj\<close> when \<open>v1\<close> is \<^verbatim>\<open>undefined\<close> and the first changed nothing. Its updater
  is called on that parsed value, not on one captured when the setter was called. With
  the decimal serializer pair and \<^verbatim>\<open>v => v + 1\<close> twice, \<^verbatim>\<open>{val: "123"}\<close> becomes
  \<^verbatim>\<open>{val: "124"}\<close> and then \<^verbatim>\<open>{val: "125"}\<close>.
\<close>

theorem functional_updates_observe_previous_patch:
  assumes "p (getprop prevObj key) = Inr prev1" and "f prev1 = Inr next1" and "s next1 = Inr v1"
  shows "useQueryState_update key history p s (Updater f) options1 topts1 router =
           (None, router @ [(if historyMode options1 history = HPush then RouterPush else RouterReplace)
                              (QueryFn (useQueryState_patch key p s f)) topts1]) \<and>
         useQueryState_update key history p s (Updater g) options2 topts2
             (snd (useQueryState_update key history p s (Updater f) options1 topts1 router)) =
           (None, router @ [(if historyMode options1 history = HPush then RouterPush else RouterReplace)
                              (QueryFn (useQueryState_patch key p s f)) topts1,
                            (if historyMode options2 history = HPush then RouterPush else RouterReplace)
                              (QueryFn (useQueryState_patch key p s g)) topts2]) \<and>
         useQueryState_patch key p s f prevObj =
           Inr (if v1 \<noteq> JUndefined then prevObj(key \<mapsto> v1) else prevObj) \<and>
         useQueryState_patch key p s g (if v1 \<noteq> JUndefined then prevObj(key \<mapsto> v1) else prevObj) =
           and_then (p (if v1 \<noteq> JUndefined then v1 else getprop prevObj key)) (\<lambda>prev2.
           and_then (g prev2) (\<lambda>next2.
           and_then (s next2) (\<lambda>v2.
           Inr (if v2 \<noteq> JUndefined then prevObj(key \<mapsto> v2)
                else if v1 \<noteq> JUndefined then prevObj(key \<mapsto> v1)
                else prevObj))))"
proof -
  have calls: "useQueryState_update key history p s (Updater u) opts topts r =
      (None, r @ [(if historyMode opts history = HPush then RouterPush else RouterReplace)
                    (QueryFn (useQueryState_patch key p s u)) topts])" for u opts topts r
    by (simp add: useQueryState_update_call useQueryState_queryUpdater_Updater)
  have first: "useQueryState_patch key p s f prevObj =
      Inr (if v1 \<noteq> JUndefined then prevObj(key \<mapsto> v1) else prevObj)"
    using assms by (simp add: useQueryState_patch_def)
  have second: "useQueryState_patch key p s g (if v1 \<noteq> JUndefined then prevObj(key \<mapsto> v1) else prevObj) =
      and_then (p (if v1 \<noteq> JUndefined then v1 else getprop prevObj key)) (\<lambda>prev2.
      and_then (g prev2) (\<lambda>next2.
      and_then (s next2) (\<lambda>v2.
      Inr (if v2 \<noteq> JUndefined then prevObj(key \<mapsto> v2)
           else if v1 \<noteq> JUndefined then prevObj(key \<mapsto> v1)
           else prevObj))))"
    by (simp add: useQueryState_patch_def getprop_def cong: if_cong)
  show ?thesis
    by (simp only: calls snd_conv append_assoc append.simps first second simp_thms)
qed

theorem functional_updates_observe_previous_patch_witness:
  "returns integer_parse (getprop [''val'' \<mapsto> JStr ''123''] ''val'') = Inr (JNum 123) \<and>
   returns increment (JNum 123) = Inr (JNum 124) \<and>
   returns integer_serialize (JNum 124) = Inr (JStr ''124'') \<and>
   useQueryState_update ''val'' HReplace (returns integer_parse) (returns integer_serialize)
       (Updater (returns increment)) None JUndefined
       (snd (useQueryState_update ''val'' HReplace (returns integer_parse) (returns integer_serialize)
               (Updater (returns increment)) None JUndefined []))
     = (None, [RouterReplace (QueryFn (useQueryState_patch ''val'' (returns integer_parse)
                  (returns integer_serialize) (returns increment))) JUndefined,
               RouterReplace (QueryFn (useQueryState_patch ''val'' (returns integer_parse)
                  (returns integer_serialize) (returns increment))) JUndefined]) \<and>
   useQueryState_patch ''val'' (returns integer_parse) (returns integer_serialize) (returns increment)
       [''val'' \<mapsto> JStr ''123'']
     = Inr [''val'' \<mapsto> JStr ''124''] \<and>
   useQueryState_patch ''val'' (returns integer_parse) (returns integer_serialize) (returns increment)
       [''val'' \<mapsto> JStr ''124'']
     = Inr [''val'' \<mapsto> JStr ''125'']"
proof -
  have parsed: "returns integer_parse (getprop [''val'' \<mapsto> JStr ''123''] ''val'') = Inr (JNum 123)"
    by (simp add: returns_def getprop_def from_decimal_123)
  have updated: "returns increment (JNum 123) = Inr (JNum 124)"
    by (simp add: returns_def)
  have serialized: "returns integer_serialize (JNum 124) = Inr (JStr ''124'')"
    by (simp add: returns_def decimal_124)
  note run = functional_updates_observe_previous_patch
    [where p = "returns integer_parse" and prevObj = "[''val'' \<mapsto> JStr ''123'']" and key = "''val''"
       and ?prev1.0 = "JNum 123" and f = "returns increment" and ?next1.0 = "JNum 124"
       and s = "returns integer_serialize" and ?v1.0 = "JStr ''124''" and g = "returns increment"
       and history = HReplace and ?options1.0 = None and ?options2.0 = None
       and ?topts1.0 = JUndefined and ?topts2.0 = JUndefined and router = "[]",
     OF parsed updated serialized]
  from run [THEN conjunct2, THEN conjunct1] have calls:
    "useQueryState_update ''val'' HReplace (returns integer_parse) (returns integer_serialize)
        (Updater (returns increment)) None JUndefined
        (snd (useQueryState_update ''val'' HReplace (returns integer_parse) (returns integer_serialize)
                (Updater (returns increment)) None JUndefined []))
      = (None, [RouterReplace (QueryFn (useQueryState_patch ''val'' (returns integer_parse)
                   (returns integer_serialize) (returns increment))) JUndefined,
                RouterReplace (QueryFn (useQueryState_patch ''val'' (returns integer_parse)
                   (returns integer_serialize) (returns increment))) JUndefined])"
    by (simp add: historyMode_def)
  from run [THEN conjunct2, THEN conjunct2, THEN conjunct1] have first:
    "useQueryState_patch ''val'' (returns integer_parse) (returns integer_serialize) (returns increment)
        [''val'' \<mapsto> JStr ''123'']
      = Inr [''val'' \<mapsto> JStr ''124'']"
    by simp
  from run [THEN conjunct2, THEN conjunct2, THEN conjunct2] have second:
    "useQueryState_patch ''val'' (returns integer_parse) (returns integer_serialize) (returns increment)
        [''val'' \<mapsto> JStr ''124'']
      = Inr [''val'' \<mapsto> JStr ''125'']"
    by (simp add: returns_def from_decimal_124 decimal_125)
  show ?thesis
    by (intro conjI parsed updated serialized calls first second)
qed

section \<open>The multi-key setter: serialization and merge\<close>

text \<open>
  Claim C1, which the code does not meet. The claim has each present key serialized by
  its serializer applied to that key's updated value. The loop of
  \<open>serializeAndRemoveUndefined\<close> calls the serializer on the whole update object
  instead. With the key map \<^verbatim>\<open>{a: {parse, serialize: string_serialize}}\<close> and the
  update \<^verbatim>\<open>{a: "x"}\<close>, the serializer maps the value \<^verbatim>\<open>"x"\<close> to \<^verbatim>\<open>"x"\<close>, and
  the serialization the specification describes is \<^verbatim>\<open>{a: "x"}\<close>; the code hands the
  serializer the object \<^verbatim>\<open>{a: "x"}\<close>, gets \<^verbatim>\<open>undefined\<close>, and the batch router
  receives the empty patch.
\<close>

theorem serializeAndRemoveUndefined_passes_whole_object:
  "returns string_serialize (JStr ''x'') = Inr (JStr ''x'') \<and>
   spec_serialize dflt [''a'' \<mapsto> JStr ''x'']
     [(''a'', \<lparr>parse = returns default_parse, serialize = Some (returns string_serialize)\<rparr>)]
     = Inr [''a'' \<mapsto> JStr ''x''] \<and>
   serializeAndRemoveUndefined dflt [''a'' \<mapsto> JStr ''x'']
     [(''a'', \<lparr>parse = returns default_parse, serialize = Some (returns string_serialize)\<rparr>)]
     = Inr Map.empty \<and>
   useQueryStates dflt Map.empty
       [(''a'', \<lparr>parse = returns default_parse, serialize = Some (returns string_serialize)\<rparr>)] None
     = Inr ([''a'' \<mapsto> JNull],
            useQueryStates_update dflt
              [(''a'', \<lparr>parse = returns default_parse, serialize = Some (returns string_serialize)\<rparr>)]
              HReplace) \<and>
   useQueryStates_update dflt
       [(''a'', \<lparr>parse = returns default_parse, serialize = Some (returns string_serialize)\<rparr>)]
       HReplace (DirectValues [''a'' \<mapsto> JStr ''x'']) None JUndefined []
     = (None, [RouterReplace (QueryObj Map.empty) JUndefined])"
  by (simp add: serializeAndRemoveUndefined_def spec_serialize_def getprop_def returns_def
      useQueryStates_def parseObject_def default_parse_def
      useQueryStates_update_call useQueryStates_queryUpdater_def historyMode_states_def)

text \<open>
  Claim C4. A functional update of the multi-key setter hands the batch router a patch
  function, and that function returns the dictionary it is applied to merged with the
  serialized partial: a key of the serialized partial has its new value, every other key
  has what the input dictionary had for it.
\<close>

theorem multi_key_patch_spread_merge:
  assumes "parseObject prevObj keys = Inr prev"
      and "f prev = Inr updated"
      and "serializeAndRemoveUndefined dflt updated keys = Inr serialized"
  shows "useQueryStates_queryUpdater dflt keys (UpdaterFn f)
           = Inr (QueryFn (useQueryStates_patch dflt keys f)) \<and>
         useQueryStates_update dflt keys history (UpdaterFn f) options topts router =
           (None, router @ [(if historyMode_states options history = HPush
                             then RouterPush else RouterReplace)
                              (QueryFn (useQueryStates_patch dflt keys f)) topts]) \<and>
         useQueryStates_patch dflt keys f prevObj =
           Inr (\<lambda>k. case serialized k of Some v \<Rightarrow> Some v | None \<Rightarrow> prevObj k)"
  using assms
  by (simp add: useQueryStates_update_call useQueryStates_queryUpdater_UpdaterFn
      useQueryStates_patch_def map_add_def fun_eq_iff split: option.splits)

theorem multi_key_patch_spread_merge_witness:
  "parseObject [''a'' \<mapsto> JStr ''1'', ''b'' \<mapsto> JStr ''2'', ''c'' \<mapsto> JStr ''3'']
     [(''a'', \<lparr>parse = returns default_parse, serialize = Some (returns flag_serialize)\<rparr>),
      (''b'', \<lparr>parse = returns default_parse, serialize = None\<rparr>)]
     = Inr [''a'' \<mapsto> JStr ''1'', ''b'' \<mapsto> JStr ''2''] \<and>
   (\<lambda>prev. Inr [''a'' \<mapsto> JBool True]) [''a'' \<mapsto> JStr ''1'', ''b'' \<mapsto> JStr ''2'']
     = (Inr [''a'' \<mapsto> JBool True] :: error + jsobj) \<and>
   serializeAndRemoveUndefined (returns string_serialize) [''a'' \<mapsto> JBool True]
     [(''a'', \<lparr>parse = returns default_parse, serialize = Some (returns flag_serialize)\<rparr>),
      (''b'', \<lparr>parse = returns default_parse, serialize = None\<rparr>)]
     = Inr [''a'' \<mapsto> JStr ''on''] \<and>
   map_sum id (\<lambda>merged. (merged ''a'', merged ''b'', merged ''c''))
     (useQueryStates_patch (returns string_serialize)
        [(''a'', \<lparr>parse = returns default_parse, serialize = Some (returns flag_serialize)\<rparr>),
         (''b'', \<lparr>parse = returns default_parse, serialize = None\<rparr>)]
        (\<lambda>prev. Inr [''a'' \<mapsto> JBool True])
        [''a'' \<mapsto> JStr ''1'', ''b'' \<mapsto> JStr ''2'', ''c'' \<mapsto> JStr ''3''])
     = Inr (Some (JStr ''on''), Some (JStr ''2''), Some (JStr ''3''))"
proof -
  have parsed:
    "parseObject [''a'' \<mapsto> JStr ''1'', ''b'' \<mapsto> JStr ''2'', ''c'' \<mapsto> JStr ''3'']
       [(''a'', \<lparr>parse = returns default_parse, serialize = Some (returns flag_serialize)\<rparr>),
        (''b'', \<lparr>parse = returns default_parse, serialize = None\<rparr>)]
       = Inr [''a'' \<mapsto> JStr ''1'', ''b'' \<mapsto> JStr ''2'']"
    by (simp add: parseObject_def returns_def getprop_def default_parse_def)
  have updated:
    "(\<lambda>prev. Inr [''a'' \<mapsto> JBool True]) [''a'' \<mapsto> JStr ''1'', ''b'' \<mapsto> JStr ''2'']
       = (Inr [''a'' \<mapsto> JBool True] :: error + jsobj)"
    by simp
  have serialized:
    "serializeAndRemoveUndefined (returns string_serialize) [''a'' \<mapsto> JBool True]
       [(''a'', \<lparr>parse = returns default_parse, serialize = Some (returns flag_serialize)\<rparr>),
        (''b'', \<lparr>parse = returns default_parse, serialize = None\<rparr>)]
       = Inr [''a'' \<mapsto> JStr ''on'']"
    by (simp add: serializeAndRemoveUndefined_def returns_def flag_serialize_def)
  note run = multi_key_patch_spread_merge
    [where prevObj = "[''a'' \<mapsto> JStr ''1'', ''b'' \<mapsto> JStr ''2'', ''c'' \<mapsto> JStr ''3'']"
       and keys = "[(''a'', \<lparr>parse = returns default_parse, serialize = Some (returns flag_serialize)\<rparr>),
                    (''b'', \<lparr>parse = returns default_parse, serialize = None\<rparr>)]"
       and prev = "[''a'' \<mapsto> JStr ''1'', ''b'' \<mapsto> JStr ''2'']"
       and f = "\<lambda>prev. Inr [''a'' \<mapsto> JBool True]" and updated = "[''a'' \<mapsto> JBool True]"
       and dflt = "returns string_serialize" and serialized = "[''a'' \<mapsto> JStr ''on'']",
     OF parsed updated serialized]
  from run [THEN conjunct2, THEN conjunct2] have merged:
    "map_sum id (\<lambda>merged. (merged ''a'', merged ''b'', merged ''c''))
       (useQueryStates_patch (returns string_serialize)
          [(''a'', \<lparr>parse = returns default_parse, serialize = Some (returns flag_serialize)\<rparr>),
           (''b'', \<lparr>parse = returns default_parse, serialize = None\<rparr>)]
          (\<lambda>prev. Inr [''a'' \<mapsto> JBool True])
          [''a'' \<mapsto> JStr ''1'', ''b'' \<mapsto> JStr ''2'', ''c'' \<mapsto> JStr ''3''])
       = Inr (Some (JStr ''on''), Some (JStr ''2''), Some (JStr ''3''))"
    by simp
  show ?thesis
    by (intro conjI parsed updated serialized merged)
qed

text \<open>
  Claim C9. The serialized patch of the multi-key setter has no key outside the key map.
  For a key \<open>k\<close> that the key map does not have: the serialized partial has no entry for
  \<open>k\<close>, whatever the update holds for it; a direct update hands that partial to the batch
  router; and the patch function of a functional update leaves the entry of \<open>k\<close> as the
  dictionary it is applied to has it.
\<close>

theorem serialized_patch_keys_within_KeyMap:
  assumes "k \<notin> fst ` set keys"
  shows "(\<forall>serialized. serializeAndRemoveUndefined dflt vals keys = Inr serialized \<longrightarrow>
            serialized k = None) \<and>
         useQueryStates_queryUpdater dflt keys (DirectValues vals)
           = (case serializeAndRemoveUndefined dflt vals keys of
                Inl e \<Rightarrow> Inl e
              | Inr serialized \<Rightarrow> Inr (QueryObj serialized)) \<and>
         useQueryStates_queryUpdater dflt keys (UpdaterFn f)
           = Inr (QueryFn (useQueryStates_patch dflt keys f)) \<and>
         (\<forall>merged. useQueryStates_patch dflt keys f prevObj = Inr merged \<longrightarrow>
            merged k = prevObj k)"
proof -
  have absent: "serialized k = None"
    if "serializeAndRemoveUndefined dflt upd keys = Inr serialized" for upd serialized
    using assms serializeAndRemoveUndefined_keys [OF that] by blast
  have direct: "useQueryStates_queryUpdater dflt keys (DirectValues vals)
      = (case serializeAndRemoveUndefined dflt vals keys of
           Inl e \<Rightarrow> Inl e
         | Inr serialized \<Rightarrow> Inr (QueryObj serialized))"
    by (simp add: useQueryStates_queryUpdater_def and_then_case)
  have merged: "merged k = prevObj k"
    if "useQueryStates_patch dflt keys f prevObj = Inr merged" for merged
  proof -
    from that obtain updated serialized
      where serialized: "serializeAndRemoveUndefined dflt updated keys = Inr serialized"
        and merged: "merged = prevObj ++ serialized"
      by (auto simp: useQueryStates_patch_def and_then_case split: sum.splits)
    from absent [OF serialized] merged show ?thesis
      by (simp add: map_add_def)
  qed
  show ?thesis
    using absent direct merged useQueryStates_queryUpdater_UpdaterFn by blast
qed

theorem serialized_patch_keys_within_KeyMap_witness:
  "''zzz'' \<notin> fst ` set [(''a'', \<lparr>parse = returns default_parse, serialize = Some (returns flag_serialize)\<rparr>)] \<and>
   [''a'' \<mapsto> JBool True, ''zzz'' \<mapsto> JStr ''y''] ''zzz'' = Some (JStr ''y'') \<and>
   map_sum id (\<lambda>serialized. (serialized ''a'', serialized ''zzz''))
     (serializeAndRemoveUndefined (returns string_serialize)
        [''a'' \<mapsto> JBool True, ''zzz'' \<mapsto> JStr ''y'']
        [(''a'', \<lparr>parse = returns default_parse, serialize = Some (returns flag_serialize)\<rparr>)])
     = Inr (Some (JStr ''on''), None) \<and>
   map_sum id (\<lambda>merged. (merged ''a'', merged ''zzz''))
     (useQueryStates_patch (returns string_serialize)
        [(''a'', \<lparr>parse = returns default_parse, serialize = Some (returns flag_serialize)\<rparr>)]
        (\<lambda>prev. Inr [''a'' \<mapsto> JBool True, ''zzz'' \<mapsto> JStr ''y''])
        [''a'' \<mapsto> JStr ''1''])
     = Inr (Some (JStr ''on''), None)"
proof -
  have outside:
    "''zzz'' \<notin> fst ` set [(''a'', \<lparr>parse = returns default_parse, serialize = Some (returns flag_serialize)\<rparr>)]"
    by simp
  show ?thesis
    using serialized_patch_keys_within_KeyMap [OF outside, of "returns string_serialize"
        "[''a'' \<mapsto> JBool True, ''zzz'' \<mapsto> JStr ''y'']"
        "\<lambda>prev. Inr [''a'' \<mapsto> JBool True, ''zzz'' \<mapsto> JStr ''y'']" "[''a'' \<mapsto> JStr ''1'']"]
    by (simp add: serializeAndRemoveUndefined_def useQueryStates_patch_def parseObject_def
        returns_def flag_serialize_def getprop_def default_parse_def)
qed

section \<open>The single-key hook: default parse and direct updates\<close>

text \<open>
  Claim C7. When the single-key hook is called with no \<^verbatim>\<open>parse\<close> function, the render
  does not throw and the value it returns is \<^verbatim>\<open>null\<close> for a key that is absent from
  the query (or present as \<^verbatim>\<open>undefined\<close>), and the raw value itself, string or array
  of strings, for a key that is present.
\<close>

theorem default_parse_undefined_to_null:
  assumes "Option.bind hookOptions uqs_parse = None"
  shows "\<exists>setValue. useQueryState dflt query key hookOptions =
           Inr (case query key of
                  None \<Rightarrow> JNull
                | Some raw \<Rightarrow> (if raw = JUndefined then JNull else raw),
                setValue)"
proof -
  from assms have "(case hookOptions of None \<Rightarrow> no_options | Some given \<Rightarrow> given) = opts \<Longrightarrow>
      uqs_parse opts = None" for opts
    by (auto simp: no_options_def split: option.splits)
  then show ?thesis
    by (simp add: useQueryState_def Let_def returns_def default_parse_def getprop_def
        split: option.splits)
qed

theorem default_parse_undefined_to_null_witness:
  "Option.bind (None :: UseQueryStateOptions option) uqs_parse = None \<and>
   map_sum id fst (useQueryState (returns string_serialize) Map.empty ''val'' None) = Inr JNull \<and>
   map_sum id fst (useQueryState (returns string_serialize) [''val'' \<mapsto> JStr ''foo''] ''val'' None)
     = Inr (JStr ''foo'') \<and>
   map_sum id fst (useQueryState (returns string_serialize)
                     [''val'' \<mapsto> JArr [JStr ''123'', JStr ''456'']] ''val'' None)
     = Inr (JArr [JStr ''123'', JStr ''456''])"
proof -
  have none: "Option.bind (None :: UseQueryStateOptions option) uqs_parse = None"
    by simp
  show ?thesis
    using default_parse_undefined_to_null [OF none, of "returns string_serialize" Map.empty "''val''"]
      default_parse_undefined_to_null [OF none, of "returns string_serialize"
        "[''val'' \<mapsto> JStr ''foo'']" "''val''"]
      default_parse_undefined_to_null [OF none, of "returns string_serialize"
        "[''val'' \<mapsto> JArr [JStr ''123'', JStr ''456'']]" "''val''"]
    by auto
qed

text \<open>
  Claim C10. A direct-value update of the single-key setter hands the batch router the
  patch object \<^verbatim>\<open>{ [key]: serialize(value) }\<close>: the key is always in it, also when
  \<^verbatim>\<open>serialize(value)\<close> is \<^verbatim>\<open>undefined\<close>; the key is then present with the value
  \<^verbatim>\<open>undefined\<close>, neither left out nor replaced by a previous raw value.
\<close>

theorem direct_update_patch_contains_key:
  assumes "s v = Inr serialized"
  shows "useQueryState_update key history p s (Direct v) options topts router =
           (None, router @ [(if historyMode options history = HPush then RouterPush else RouterReplace)
                              (QueryObj [key \<mapsto> serialized]) topts]) \<and>
         [key \<mapsto> serialized] key = Some serialized \<and> dom [key \<mapsto> serialized] = {key}"
  using assms by (simp add: useQueryState_update_call useQueryState_queryUpdater_def)

theorem direct_update_patch_contains_key_witness:
  "returns integer_serialize JNull = Inr JUndefined \<and>
   useQueryState_update ''val'' HReplace (returns integer_parse) (returns integer_serialize)
       (Direct JNull) None JUndefined []
     = (None, [RouterReplace (QueryObj [''val'' \<mapsto> JUndefined]) JUndefined]) \<and>
   [''val'' \<mapsto> JUndefined] ''val'' = Some JUndefined"
proof -
  have undefined: "returns integer_serialize JNull = Inr JUndefined"
    by (simp add: returns_def)
  show ?thesis
    using undefined direct_update_patch_contains_key
      [where s = "returns integer_serialize" and v = JNull and serialized = JUndefined
         and key = "''val''" and history = HReplace and p = "returns integer_parse"
         and options = None and topts = JUndefined and router = "[]", OF undefined]
    by (simp add: historyMode_def)
qed

section \<open>History mode and the call to the batch router\<close>

text \<open>
  Claim C5. When the hook was given no history option and the setter is called without
  a history option of its own, the setter calls \<^verbatim>\<open>replace\<close> on the batch router and
  not \<^verbatim>\<open>push\<close>; this holds for the single-key and for the multi-key setter. The one
  call is made with the \<^verbatim>\<open>queryUpdater\<close> of the update; when computing that throws,
  no call is made at all.
\<close>

theorem setter_defaults_to_replace:
  assumes "useQueryState dflt query key hookOptions = Inr (val, setValue)"
      and "useQueryStates dflt query keys statesOptions = Inr (vals, setValues)"
      and "Option.bind hookOptions uqs_history = None"
      and "Option.bind options sqs_history = None"
      and "Option.bind statesOptions uqss_history = None"
  shows "setValue stateUpdater options topts router =
           (case useQueryState_queryUpdater key
                   (case Option.bind hookOptions uqs_parse of
                      None \<Rightarrow> returns default_parse | Some p \<Rightarrow> p)
                   (case Option.bind hookOptions uqs_serialize of None \<Rightarrow> dflt | Some s \<Rightarrow> s)
                   stateUpdater of
              Inl e \<Rightarrow> (Some e, router)
            | Inr q \<Rightarrow> (None, router @ [RouterReplace q topts])) \<and>
         setValues statesUpdater None topts router =
           (case useQueryStates_queryUpdater dflt keys statesUpdater of
              Inl e \<Rightarrow> (Some e, router)
            | Inr q \<Rightarrow> (None, router @ [RouterReplace q topts]))"
proof -
  from assms(3) have hook: "spec_history None (Option.bind hookOptions uqs_history) = HReplace"
    by (simp add: spec_history_def)
  from assms(5) have hooks: "spec_history None (Option.bind statesOptions uqss_history) = HReplace"
    by (simp add: spec_history_def)
  from assms(4) have call: "historyMode options HReplace = HReplace"
    by (auto simp: historyMode_def split: option.splits)
  have calls: "historyMode_states None HReplace = HReplace"
    by (simp add: historyMode_states_def)
  show ?thesis
    by (simp add: useQueryState_setter [OF assms(1)] useQueryState_update_call
        useQueryStates_setter [OF assms(2)] useQueryStates_update_call hook hooks call calls)
qed

theorem setter_defaults_to_replace_witness:
  "useQueryState (returns string_serialize) [''val'' \<mapsto> JStr ''foo''] ''val'' None
     = Inr (JStr ''foo'',
            useQueryState_update ''val'' HReplace (returns default_parse) (returns string_serialize)) \<and>
   useQueryStates (returns string_serialize) [''val'' \<mapsto> JStr ''foo'']
       [(''val'', \<lparr>parse = returns default_parse, serialize = Some (returns flag_serialize)\<rparr>)] None
     = Inr ([''val'' \<mapsto> JStr ''foo''],
            useQueryStates_update (returns string_serialize)
              [(''val'', \<lparr>parse = returns default_parse, serialize = Some (returns flag_serialize)\<rparr>)]
              HReplace) \<and>
   Option.bind (None :: UseQueryStateOptions option) uqs_history = None \<and>
   Option.bind (None :: SetQueryStateOptions option) sqs_history = None \<and>
   Option.bind (None :: UseQueryStatesOptions option) uqss_history = None \<and>
   useQueryState_update ''val'' HReplace (returns default_parse) (returns string_serialize)
       (Direct (JStr ''bar'')) None JUndefined []
     = (None, [RouterReplace (QueryObj [''val'' \<mapsto> JStr ''bar'']) JUndefined]) \<and>
   useQueryStates_update (returns string_serialize)
       [(''val'', \<lparr>parse = returns default_parse, serialize = Some (returns flag_serialize)\<rparr>)]
       HReplace (DirectValues [''val'' \<mapsto> JBool True]) None JUndefined []
     = (None, [RouterReplace (QueryObj [''val'' \<mapsto> JStr ''on'']) JUndefined])"
proof -
  have single: "useQueryState (returns string_serialize) [''val'' \<mapsto> JStr ''foo''] ''val'' None
      = Inr (JStr ''foo'',
             useQueryState_update ''val'' HReplace (returns default_parse) (returns string_serialize))"
    by (simp add: useQueryState_def Let_def no_options_def getprop_def returns_def [of default_parse]
        default_parse_def)
  have multi: "useQueryStates (returns string_serialize) [''val'' \<mapsto> JStr ''foo'']
        [(''val'', \<lparr>parse = returns default_parse, serialize = Some (returns flag_serialize)\<rparr>)] None
      = Inr ([''val'' \<mapsto> JStr ''foo''],
             useQueryStates_update (returns string_serialize)
               [(''val'', \<lparr>parse = returns default_parse, serialize = Some (returns flag_serialize)\<rparr>)]
               HReplace)"
    by (simp add: useQueryStates_def parseObject_def returns_def getprop_def default_parse_def)
  have none1: "Option.bind (None :: UseQueryStateOptions option) uqs_history = None"
    and none2: "Option.bind (None :: SetQueryStateOptions option) sqs_history = None"
    and none3: "Option.bind (None :: UseQueryStatesOptions option) uqss_history = None"
    by simp_all
  note run = setter_defaults_to_replace [OF single multi none1 none2 none3,
      of "Direct (JStr ''bar'')" JUndefined "[]" "DirectValues [''val'' \<mapsto> JBool True]"]
  from run [THEN conjunct1] have call1:
    "useQueryState_update ''val'' HReplace (returns default_parse) (returns string_serialize)
        (Direct (JStr ''bar'')) None JUndefined []
      = (None, [RouterReplace (QueryObj [''val'' \<mapsto> JStr ''bar'']) JUndefined])"
    by (simp add: useQueryState_queryUpdater_def returns_def)
  from run [THEN conjunct2] have call2:
    "useQueryStates_update (returns string_serialize)
        [(''val'', \<lparr>parse = returns default_parse, serialize = Some (returns flag_serialize)\<rparr>)]
        HReplace (DirectValues [''val'' \<mapsto> JBool True]) None JUndefined []
      = (None, [RouterReplace (QueryObj [''val'' \<mapsto> JStr ''on'']) JUndefined])"
    by (simp add: useQueryStates_queryUpdater_def serializeAndRemoveUndefined_def returns_def
        flag_serialize_def)
  show ?thesis
    by (intro conjI single multi none1 none2 none3 call1 call2)
qed

text \<open>
  Claim C6. The method a setter calls on the batch router is the history mode resolved
  as the specification has it: the history option of the call when there is one,
  otherwise the one the hook was configured with, otherwise \<^verbatim>\<open>replace\<close>. A hook
  configured with \<^verbatim>\<open>push\<close> and called with \<^verbatim>\<open>{history: "replace"}\<close> calls
  \<^verbatim>\<open>replace\<close>.
\<close>

theorem history_precedence:
  assumes "useQueryState dflt query key hookOptions = Inr (val, setValue)"
      and "useQueryStates dflt query keys statesOptions = Inr (vals, setValues)"
  shows "setValue stateUpdater options topts router =
           (case useQueryState_queryUpdater key
                   (case Option.bind hookOptions uqs_parse of
                      None \<Rightarrow> returns default_parse | Some p \<Rightarrow> p)
                   (case Option.bind hookOptions uqs_serialize of None \<Rightarrow> dflt | Some s \<Rightarrow> s)
                   stateUpdater of
              Inl e \<Rightarrow> (Some e, router)
            | Inr q \<Rightarrow>
                (None, router @ [(case spec_history (Option.bind options sqs_history)
                                         (Option.bind hookOptions uqs_history) of
                                    HPush \<Rightarrow> RouterPush
                                  | HReplace \<Rightarrow> RouterReplace) q topts])) \<and>
         setValues statesUpdater callOptions topts router =
           (case useQueryStates_queryUpdater dflt keys statesUpdater of
              Inl e \<Rightarrow> (Some e, router)
            | Inr q \<Rightarrow>
                (None, router @ [(case spec_history (map_option sv_history callOptions)
                                         (Option.bind statesOptions uqss_history) of
                                    HPush \<Rightarrow> RouterPush
                                  | HReplace \<Rightarrow> RouterReplace) q topts]))"
  unfolding useQueryState_setter [OF assms(1)] useQueryStates_setter [OF assms(2)]
    useQueryState_update_call useQueryStates_update_call
    historyMode_spec historyMode_states_spec method_of_mode
  by (rule conjI) (rule refl)+

theorem history_precedence_witness:
  "useQueryState (returns string_serialize) Map.empty ''val''
       (Some \<lparr>uqs_history = Some HPush, uqs_dynamic = None, uqs_parse = None, uqs_serialize = None\<rparr>)
     = Inr (JNull,
            useQueryState_update ''val'' HPush (returns default_parse) (returns string_serialize)) \<and>
   useQueryStates (returns string_serialize) Map.empty
       [(''val'', \<lparr>parse = returns default_parse, serialize = Some (returns flag_serialize)\<rparr>)]
       (Some \<lparr>uqss_history = Some HPush\<rparr>)
     = Inr ([''val'' \<mapsto> JNull],
            useQueryStates_update (returns string_serialize)
              [(''val'', \<lparr>parse = returns default_parse, serialize = Some (returns flag_serialize)\<rparr>)]
              HPush) \<and>
   useQueryState_update ''val'' HPush (returns default_parse) (returns string_serialize)
       (Direct (JStr ''foo'')) (Some \<lparr>sqs_history = Some HReplace\<rparr>) JUndefined []
     = (None, [RouterReplace (QueryObj [''val'' \<mapsto> JStr ''foo'']) JUndefined]) \<and>
   useQueryStates_update (returns string_serialize)
       [(''val'', \<lparr>parse = returns default_parse, serialize = Some (returns flag_serialize)\<rparr>)]
       HPush (DirectValues [''val'' \<mapsto> JBool True]) (Some \<lparr>sv_history = HReplace\<rparr>) JUndefined []
     = (None, [RouterReplace (QueryObj [''val'' \<mapsto> JStr ''on'']) JUndefined])"
proof -
  have single: "useQueryState (returns string_serialize) Map.empty ''val''
        (Some \<lparr>uqs_history = Some HPush, uqs_dynamic = None, uqs_parse = None, uqs_serialize = None\<rparr>)
      = Inr (JNull,
             useQueryState_update ''val'' HPush (returns default_parse) (returns string_serialize))"
    by (simp add: useQueryState_def Let_def getprop_def returns_def [of default_parse]
        default_parse_def)
  have multi: "useQueryStates (returns string_serialize) Map.empty
        [(''val'', \<lparr>parse = returns default_parse, serialize = Some (returns flag_serialize)\<rparr>)]
        (Some \<lparr>uqss_history = Some HPush\<rparr>)
      = Inr ([''val'' \<mapsto> JNull],
             useQueryStates_update (returns string_serialize)
               [(''val'', \<lparr>parse = returns default_parse, serialize = Some (returns flag_serialize)\<rparr>)]
               HPush)"
    by (simp add: useQueryStates_def parseObject_def returns_def getprop_def default_parse_def)
  note run = history_precedence [OF single multi,
      of "Direct (JStr ''foo'')" "Some \<lparr>sqs_history = Some HReplace\<rparr>" JUndefined "[]"
         "DirectValues [''val'' \<mapsto> JBool True]" "Some \<lparr>sv_history = HReplace\<rparr>"]
  from run [THEN conjunct1] have call1:
    "useQueryState_update ''val'' HPush (returns default_parse) (returns string_serialize)
        (Direct (JStr ''foo'')) (Some \<lparr>sqs_history = Some HReplace\<rparr>) JUndefined []
      = (None, [RouterReplace (QueryObj [''val'' \<mapsto> JStr ''foo'']) JUndefined])"
    by (simp add: useQueryState_queryUpdater_def returns_def spec_history_def)
  from run [THEN conjunct2] have call2:
    "useQueryStates_update (returns string_serialize)
        [(''val'', \<lparr>parse = returns default_parse, serialize = Some (returns flag_serialize)\<rparr>)]
        HPush (DirectValues [''val'' \<mapsto> JBool True]) (Some \<lparr>sv_history = HReplace\<rparr>) JUndefined []
      = (None, [RouterReplace (QueryObj [''val'' \<mapsto> JStr ''on'']) JUndefined])"
    by (simp add: useQueryStates_queryUpdater_def serializeAndRemoveUndefined_def returns_def
        flag_serialize_def spec_history_def)
  show ?thesis
    by (intro conjI single multi call1 call2)
qed

text \<open>
  Claim C8 as it is written does not hold: a setter does not always reach the batch
  router. A direct update is serialized inside the setter, before \<^verbatim>\<open>push\<close> or
  \<^verbatim>\<open>replace\<close>, and nothing catches what the serializer throws. With the serializer
  that refuses the empty string, \<^verbatim>\<open>setVal("")\<close> throws and the batch router has
  received no call.
\<close>

theorem setter_makes_no_router_call_when_serialize_throws:
  "useQueryState (returns string_serialize) Map.empty ''val''
       (Some \<lparr>uqs_history = None, uqs_dynamic = None, uqs_parse = None,
               uqs_serialize = Some nonempty_serialize\<rparr>)
     = Inr (JNull, useQueryState_update ''val'' HReplace (returns default_parse) nonempty_serialize) \<and>
   useQueryState_update ''val'' HReplace (returns default_parse) nonempty_serialize
       (Direct (JStr [])) None JUndefined []
     = (Some (Thrown (JStr ''empty'')), [])"
  by (simp add: useQueryState_def Let_def getprop_def returns_def [of default_parse]
      default_parse_def useQueryState_update_def useQueryState_queryUpdater_def)

text \<open>
  Claim C8, amended. One call of a setter, single-key or multi-key, adds at most one call
  to the batch router, whatever the update and the history mode are. It adds exactly one,
  a \<^verbatim>\<open>push\<close> or a \<^verbatim>\<open>replace\<close>, when the update is a function, and when the update
  is a direct one whose serialization returns. When the serialization of a direct update
  throws, the setter throws the same exception and the batch router is as it was.
\<close>

theorem setter_makes_at_most_one_router_call:
  assumes "useQueryState dflt query key hookOptions = Inr (val, setValue)"
      and "useQueryStates dflt query keys statesOptions = Inr (vals, setValues)"
      and "serialize1 = (case Option.bind hookOptions uqs_serialize of None \<Rightarrow> dflt | Some s \<Rightarrow> s)"
  shows "(isUpdaterFunction stateUpdater \<or> (\<exists>sv. serialize1 (the_value stateUpdater) = Inr sv) \<longrightarrow>
            (\<exists>q. setValue stateUpdater options topts router = (None, router @ [RouterPush q topts])
                \<or> setValue stateUpdater options topts router = (None, router @ [RouterReplace q topts]))) \<and>
         (\<forall>e. \<not> isUpdaterFunction stateUpdater \<and> serialize1 (the_value stateUpdater) = Inl e \<longrightarrow>
            setValue stateUpdater options topts router = (Some e, router)) \<and>
         (isUpdaterFunction_states statesUpdater
            \<or> (\<exists>sv. serializeAndRemoveUndefined dflt (the_values statesUpdater) keys = Inr sv) \<longrightarrow>
            (\<exists>q. setValues statesUpdater callOptions topts router = (None, router @ [RouterPush q topts])
                \<or> setValues statesUpdater callOptions topts router
                     = (None, router @ [RouterReplace q topts]))) \<and>
         (\<forall>e. \<not> isUpdaterFunction_states statesUpdater
               \<and> serializeAndRemoveUndefined dflt (the_values statesUpdater) keys = Inl e \<longrightarrow>
            setValues statesUpdater callOptions topts router = (Some e, router))"
proof -
  have single_ok: "\<exists>q. useQueryState_update key h p s stateUpdater options topts router
                      = (None, router @ [RouterPush q topts])
                   \<or> useQueryState_update key h p s stateUpdater options topts router
                      = (None, router @ [RouterReplace q topts])"
    if "isUpdaterFunction stateUpdater \<or> (\<exists>sv. s (the_value stateUpdater) = Inr sv)" for h p s
    using that
    by (auto simp: useQueryState_update_call useQueryState_queryUpdater_def)
  have single_throws: "useQueryState_update key h p s stateUpdater options topts router = (Some e, router)"
    if "\<not> isUpdaterFunction stateUpdater" and "s (the_value stateUpdater) = Inl e" for h p s e
    using that
    by (simp add: useQueryState_update_call useQueryState_queryUpdater_def)
  have multi_ok: "\<exists>q. useQueryStates_update dflt keys h statesUpdater callOptions topts router
                      = (None, router @ [RouterPush q topts])
                   \<or> useQueryStates_update dflt keys h statesUpdater callOptions topts router
                      = (None, router @ [RouterReplace q topts])"
    if "isUpdaterFunction_states statesUpdater
          \<or> (\<exists>sv. serializeAndRemoveUndefined dflt (the_values statesUpdater) keys = Inr sv)" for h
    using that
    by (auto simp: useQueryStates_update_call useQueryStates_queryUpdater_def)
  have multi_throws:
    "useQueryStates_update dflt keys h statesUpdater callOptions topts router = (Some e, router)"
    if "\<not> isUpdaterFunction_states statesUpdater"
      and "serializeAndRemoveUndefined dflt (the_values statesUpdater) keys = Inl e" for h e
    using that
    by (simp add: useQueryStates_update_call useQueryStates_queryUpdater_def)
  show ?thesis
    unfolding useQueryState_setter [OF assms(1)] useQueryStates_setter [OF assms(2)] assms(3)
    using single_ok single_throws multi_ok multi_throws by blast
qed

theorem setter_makes_at_most_one_router_call_witness:
  "useQueryState (returns string_serialize) Map.empty ''val''
       (Some \<lparr>uqs_history = None, uqs_dynamic = None, uqs_parse = None,
               uqs_serialize = Some nonempty_serialize\<rparr>)
     = Inr (JNull, useQueryState_update ''val'' HReplace (returns default_parse) nonempty_serialize) \<and>
   useQueryStates (returns string_serialize) Map.empty
       [(''val'', \<lparr>parse = returns default_parse, serialize = None\<rparr>)] None
     = Inr ([''val'' \<mapsto> JNull],
            useQueryStates_update (returns string_serialize)
              [(''val'', \<lparr>parse = returns default_parse, serialize = None\<rparr>)] HReplace) \<and>
   nonempty_serialize (the_value (Direct (JStr ''foo''))) = Inr (JStr ''foo'') \<and>
   length (snd (useQueryState_update ''val'' HReplace (returns default_parse) nonempty_serialize
                  (Direct (JStr ''foo'')) None JUndefined [])) = 1 \<and>
   isUpdaterFunction_states (UpdaterFn (\<lambda>prev. Inr [''val'' \<mapsto> JStr ''foo''])) \<and>
   length (snd (useQueryStates_update (returns string_serialize)
                  [(''val'', \<lparr>parse = returns default_parse, serialize = None\<rparr>)] HReplace
                  (UpdaterFn (\<lambda>prev. Inr [''val'' \<mapsto> JStr ''foo'']))
                  (Some \<lparr>sv_history = HPush\<rparr>) JUndefined [])) = 1"
proof -
  have single: "useQueryState (returns string_serialize) Map.empty ''val''
        (Some \<lparr>uqs_history = None, uqs_dynamic = None, uqs_parse = None,
                uqs_serialize = Some nonempty_serialize\<rparr>)
      = Inr (JNull, useQueryState_update ''val'' HReplace (returns default_parse) nonempty_serialize)"
    by (simp add: useQueryState_def Let_def getprop_def returns_def [of default_parse]
        default_parse_def)
  have multi: "useQueryStates (returns string_serialize) Map.empty
        [(''val'', \<lparr>parse = returns default_parse, serialize = None\<rparr>)] None
      = Inr ([''val'' \<mapsto> JNull],
             useQueryStates_update (returns string_serialize)
               [(''val'', \<lparr>parse = returns default_parse, serialize = None\<rparr>)] HReplace)"
    by (simp add: useQueryStates_def parseObject_def returns_def getprop_def default_parse_def)
  have returned: "nonempty_serialize (the_value (Direct (JStr ''foo''))) = Inr (JStr ''foo'')"
    by simp
  have is_fn: "isUpdaterFunction_states (UpdaterFn (\<lambda>prev. Inr [''val'' \<mapsto> JStr ''foo'']))"
    by simp
  note run = setter_makes_at_most_one_router_call [OF single multi refl,
      of "Direct (JStr ''foo'')" None JUndefined "[]"
         "UpdaterFn (\<lambda>prev. Inr [''val'' \<mapsto> JStr ''foo''])" "Some \<lparr>sv_history = HPush\<rparr>"]
  from run [THEN conjunct1] returned have one1:
    "length (snd (useQueryState_update ''val'' HReplace (returns default_parse) nonempty_serialize
                   (Direct (JStr ''foo'')) None JUndefined [])) = 1"
    by auto
  from run [THEN conjunct2, THEN conjunct2, THEN conjunct1] is_fn have one2:
    "length (snd (useQueryStates_update (returns string_serialize)
                   [(''val'', \<lparr>parse = returns default_parse, serialize = None\<rparr>)] HReplace
                   (UpdaterFn (\<lambda>prev. Inr [''val'' \<mapsto> JStr ''foo'']))
                   (Some \<lparr>sv_history = HPush\<rparr>) JUndefined [])) = 1"
    by auto
  show ?thesis
    by (intro conjI single multi returned one1 is_fn one2)
qed


end
